theory Spec2Isabelle
  imports Complex_Main "HOL-Library.Monad_Syntax"
begin

section \<open>Data model of the fragment shader\<close>

text \<open>
  The program under study is the GLSL fragment shader embedded in \<^verbatim>\<open>src/main.js\<close>
  (lines 36 to 155). GLSL \<^verbatim>\<open>float\<close> is modelled by \<^typ>\<open>real\<close>: rounding, overflow and
  underflow are outside the model. Operations whose result GLSL leaves undefined
  (\<^verbatim>\<open>log\<close> of a non-positive number, \<^verbatim>\<open>normalize\<close> of the zero vector, \<^verbatim>\<open>pow\<close> of a
  negative base) return \<^term>\<open>None\<close>, and every function that uses such a result
  propagates \<^term>\<open>None\<close>.
\<close>

datatype vec2 = Vec2 (px: real) (py: real)

datatype vec3 = Vec3 (vx: real) (vy: real) (vz: real)

datatype vec4 = Vec4 (qx: real) (qy: real) (qz: real) (qw: real)

text \<open>
  The uniforms (lines 37 to 39, and \<^verbatim>\<open>cameraPosition\<close>, which three.js declares for every
  shader material) and the varyings (lines 41 to 43) that one fragment invocation reads.
  They are globals of the shader, so every function of the model takes them as its first
  argument.
\<close>

record shader_inputs =
  resolution :: vec2
  time :: real
  quaternionC :: vec4
  cameraPosition :: vec3
  vPosition :: vec3
  vWorldPosition :: vec3
  vNormal :: vec3

text \<open>\<^verbatim>\<open>gl_FragColor\<close>: the colour channels, when they are defined, and the alpha channel.\<close>

datatype frag_color = FragColor (rgb: "vec3 option") (alpha: real)

text \<open>The preprocessor constants of lines 45 to 49.\<close>

definition MAX_STEPS :: nat where
  "MAX_STEPS = 512"

definition MIN_DIST :: real where
  "MIN_DIST = 1 / 10000"

definition MAX_DIST :: real where
  "MAX_DIST = 40"

definition ITERATIONS :: nat where
  "ITERATIONS = 20"

definition STEP_SCALE :: real where
  "STEP_SCALE = 45 / 100"

subsection \<open>GLSL vector built-ins used by the shader\<close>

definition add3 :: "vec3 \<Rightarrow> vec3 \<Rightarrow> vec3" where
  "add3 a b = Vec3 (vx a + vx b) (vy a + vy b) (vz a + vz b)"

definition sub3 :: "vec3 \<Rightarrow> vec3 \<Rightarrow> vec3" where
  "sub3 a b = Vec3 (vx a - vx b) (vy a - vy b) (vz a - vz b)"

definition scale3 :: "vec3 \<Rightarrow> real \<Rightarrow> vec3" where
  "scale3 a s = Vec3 (vx a * s) (vy a * s) (vz a * s)"

definition neg3 :: "vec3 \<Rightarrow> vec3" where
  "neg3 a = Vec3 (- vx a) (- vy a) (- vz a)"

definition dot3 :: "vec3 \<Rightarrow> vec3 \<Rightarrow> real" where
  "dot3 a b = vx a * vx b + vy a * vy b + vz a * vz b"

definition length3 :: "vec3 \<Rightarrow> real" where
  "length3 a = sqrt (vx a * vx a + vy a * vy a + vz a * vz a)"

definition add4 :: "vec4 \<Rightarrow> vec4 \<Rightarrow> vec4" where
  "add4 a b = Vec4 (qx a + qx b) (qy a + qy b) (qz a + qz b) (qw a + qw b)"

definition length4 :: "vec4 \<Rightarrow> real" where
  "length4 a = sqrt (qx a * qx a + qy a * qy a + qz a * qz a + qw a * qw a)"

section \<open>Quaternion multiplication\<close>

text \<open>\<^verbatim>\<open>qmul\<close>, lines 51 to 58.\<close>

definition qmul :: "vec4 \<Rightarrow> vec4 \<Rightarrow> vec4" where
  "qmul a b = Vec4
     (qx a * qx b - qy a * qy b - qz a * qz b - qw a * qw b)
     (qx a * qy b + qy a * qx b + qz a * qw b - qw a * qz b)
     (qx a * qz b - qy a * qw b + qz a * qx b + qw a * qy b)
     (qx a * qw b + qy a * qz b - qz a * qy b + qw a * qx b)"

text \<open>
  The Hamilton product as the algebra defines it, independently of the code: a
  quaternion is a scalar part and a vector part, and
  \<open>(s, u) (t, v) = (s t - u \<cdot> v, s v + t u + u \<times> v)\<close>. The shader stores the scalar
  part in the first component.
\<close>

definition cross3 :: "vec3 \<Rightarrow> vec3 \<Rightarrow> vec3" where
  "cross3 a b = Vec3 (vy a * vz b - vz a * vy b)
                     (vz a * vx b - vx a * vz b)
                     (vx a * vy b - vy a * vx b)"

definition vpart :: "vec4 \<Rightarrow> vec3" where
  "vpart a = Vec3 (qy a) (qz a) (qw a)"

definition hamilton :: "vec4 \<Rightarrow> vec4 \<Rightarrow> vec4" where
  "hamilton a b =
     (let s = qx a; t = qx b; u = vpart a; v = vpart b;
          w = add3 (add3 (scale3 v s) (scale3 u t)) (cross3 u v)
      in Vec4 (s * t - dot3 u v) (vx w) (vy w) (vz w))"


subsection \<open>GLSL built-ins with undefined results\<close>

text \<open>\<^verbatim>\<open>log(x)\<close>: undefined for \<open>x \<le> 0\<close>.\<close>

definition glsl_log :: "real \<Rightarrow> real option" where
  "glsl_log x = (if 0 < x then Some (ln x) else None)"

text \<open>Floating-point division: undefined for a zero divisor.\<close>

definition glsl_div :: "real \<Rightarrow> real \<Rightarrow> real option" where
  "glsl_div a b = (if b = 0 then None else Some (a / b))"

text \<open>\<^verbatim>\<open>pow(x, y)\<close>: undefined for \<open>x < 0\<close>, and for \<open>x = 0\<close> with \<open>y \<le> 0\<close>.\<close>

definition glsl_pow :: "real \<Rightarrow> real \<Rightarrow> real option" where
  "glsl_pow a b = (if a < 0 \<or> (a = 0 \<and> b \<le> 0) then None else Some (a powr b))"

text \<open>\<^verbatim>\<open>normalize(v)\<close> is \<open>v / length(v)\<close>: undefined for the zero vector.\<close>

definition normalize3 :: "vec3 \<Rightarrow> vec3 option" where
  "normalize3 v =
     (if length3 v = 0 then None
      else Some (Vec3 (vx v / length3 v) (vy v / length3 v) (vz v / length3 v)))"

text \<open>\<^verbatim>\<open>reflect(I, N)\<close> is \<open>I - 2 * dot(N, I) * N\<close>.\<close>

definition reflect3 :: "vec3 \<Rightarrow> vec3 \<Rightarrow> vec3" where
  "reflect3 i n = sub3 i (scale3 n (2 * dot3 n i))"

section \<open>Distance estimator\<close>

text \<open>
  The loop of \<^verbatim>\<open>DE\<close>, lines 74 to 79. The arguments are the loop counter \<open>i\<close>, the
  rotated constant \<open>c\<close> and the variables \<open>z\<close>, \<open>dr\<close>, \<open>r\<close>; the result is the pair
  \<open>(r, dr)\<close> at the loop's exit.
\<close>

function DE_loop :: "nat \<Rightarrow> vec4 \<Rightarrow> vec4 \<Rightarrow> real \<Rightarrow> real \<Rightarrow> real \<times> real" where
  "DE_loop i c z dr r =
     (if i < ITERATIONS then
        (let r' = length4 z in
         if r' > 4 then (r', dr)
         else DE_loop (i + 1) c (add4 (qmul z z) c) (2 * r' * dr + 1) r')
      else (r, dr))"
  by pat_completeness auto
termination
  by (relation "measure (\<lambda>(i, c, z, dr, r). ITERATIONS - i)") auto

declare DE_loop.simps [simp del]

text \<open>The rotated constant of lines 63 to 69.\<close>

definition rotatedC :: "shader_inputs \<Rightarrow> vec4" where
  "rotatedC env =
     (let t = time env * 0.2 in
      Vec4 (qx (quaternionC env) * cos t - qy (quaternionC env) * sin t)
           (qx (quaternionC env) * sin t + qy (quaternionC env) * cos t)
           (qz (quaternionC env) * cos (t * 0.7) - qw (quaternionC env) * sin (t * 0.7))
           (qz (quaternionC env) * sin (t * 0.7) + qw (quaternionC env) * cos (t * 0.7)))"

text \<open>\<^verbatim>\<open>DE\<close>, lines 60 to 82.\<close>

definition DE :: "shader_inputs \<Rightarrow> vec3 \<Rightarrow> real option" where
  "DE env pos =
     (let z = Vec4 (vx pos) (vy pos) (vz pos) 0;
          c = rotatedC env;
          (r, dr) = DE_loop 0 c z 1 0
      in do { l \<leftarrow> glsl_log r; glsl_div (0.5 * l * r) dr })"

section \<open>Normal estimator\<close>

text \<open>The argument of \<^verbatim>\<open>normalize\<close> in \<^verbatim>\<open>getNormal\<close>, lines 86 to 90.\<close>

definition DE_diff :: "shader_inputs \<Rightarrow> vec3 \<Rightarrow> vec3 \<Rightarrow> real option" where
  "DE_diff env p e = do { a \<leftarrow> DE env (add3 p e); b \<leftarrow> DE env (sub3 p e); Some (a - b) }"

definition gradDE :: "shader_inputs \<Rightarrow> vec3 \<Rightarrow> vec3 option" where
  "gradDE env p =
     do { gx \<leftarrow> DE_diff env p (Vec3 MIN_DIST 0 0);
          gy \<leftarrow> DE_diff env p (Vec3 0 MIN_DIST 0);
          gz \<leftarrow> DE_diff env p (Vec3 0 0 MIN_DIST);
          Some (Vec3 gx gy gz) }"

text \<open>\<^verbatim>\<open>getNormal\<close>, lines 84 to 91.\<close>

definition getNormal :: "shader_inputs \<Rightarrow> vec3 \<Rightarrow> vec3 option" where
  "getNormal env p = do { g \<leftarrow> gradDE env p; normalize3 g }"

section \<open>Ray marcher\<close>

text \<open>
  How the loop of \<^verbatim>\<open>rayMarch\<close> ends: by the \<^verbatim>\<open>return t\<close> of line 103, or by leaving the
  loop (the \<^verbatim>\<open>break\<close> of line 104 or the end of the step budget) with the values of \<open>t\<close>
  and \<open>minD\<close>.
\<close>

datatype loop_exit = Returned real | Exited real real

text \<open>The loop of lines 98 to 107, with the counter \<open>i\<close> and the variables \<open>t\<close>, \<open>minD\<close>.\<close>

function rayMarch_loop ::
  "shader_inputs \<Rightarrow> vec3 \<Rightarrow> vec3 \<Rightarrow> nat \<Rightarrow> real \<Rightarrow> real \<Rightarrow> loop_exit option" where
  "rayMarch_loop env ro rd i t minD =
     (if i < MAX_STEPS then
        (case DE env (add3 ro (scale3 rd t)) of
           None \<Rightarrow> None
         | Some e \<Rightarrow>
             (let d = e * STEP_SCALE; minD' = min minD d in
              if d < MIN_DIST then Some (Returned t)
              else if t > MAX_DIST then Some (Exited t minD')
              else rayMarch_loop env ro rd (i + 1) (t + d) minD'))
      else Some (Exited t minD))"
  by pat_completeness auto
termination
  by (relation "measure (\<lambda>(env, ro, rd, i, t, minD). MAX_STEPS - i)") auto

declare rayMarch_loop.simps [simp del]

text \<open>\<^verbatim>\<open>rayMarch\<close>, lines 93 to 111; \<open>after_loop\<close> is lines 109 and 110.\<close>

definition after_loop :: "loop_exit option \<Rightarrow> real option" where
  "after_loop x =
     (case x of
        None \<Rightarrow> None
      | Some (Returned t) \<Rightarrow> Some t
      | Some (Exited t minD) \<Rightarrow> Some (if minD < 0.1 then t else MAX_DIST))"

definition rayMarch :: "shader_inputs \<Rightarrow> vec3 \<Rightarrow> vec3 \<Rightarrow> real option" where
  "rayMarch env ro rd = after_loop (rayMarch_loop env ro rd 0 0 MAX_DIST)"

section \<open>Shading\<close>

text \<open>\<^verbatim>\<open>palette\<close>, lines 113 to 119.\<close>

definition palette :: "shader_inputs \<Rightarrow> real \<Rightarrow> vec3" where
  "palette env t =
     Vec3 (0.5 + 0.5 * cos (6.28318 * (1 * t + 0.263 + time env * 0.1)))
          (0.5 + 0.5 * cos (6.28318 * (1 * t + 0.416 + time env * 0.1)))
          (0.5 + 0.5 * cos (6.28318 * (1 * t + 0.557 + time env * 0.1)))"

text \<open>The colour \<^verbatim>\<open>col\<close> at the end of \<^verbatim>\<open>main\<close>, lines 122 to 151.\<close>

definition main_col :: "shader_inputs \<Rightarrow> vec3 option" where
  "main_col env =
     do { rd0 \<leftarrow> normalize3 (sub3 (vWorldPosition env) (cameraPosition env));
          rd \<leftarrow> normalize3 (add3 rd0 (scale3 (vNormal env) 0.01));
          t \<leftarrow> rayMarch env (cameraPosition env) rd;
          if t < MAX_DIST then
            do { let p = add3 (cameraPosition env) (scale3 rd t);
                 n \<leftarrow> getNormal env p;
                 light1 \<leftarrow> normalize3 (Vec3 (sin (time env)) 1 (cos (time env)));
                 light2 \<leftarrow> normalize3 (Vec3 (- 0.707) 0.707 0);
                 let diff1 = max (dot3 n light1) 0;
                 let diff2 = max (dot3 n light2) 0;
                 spec1 \<leftarrow> glsl_pow (max (dot3 (reflect3 (neg3 light1) n) (neg3 rd)) 0) 32;
                 spec2 \<leftarrow> glsl_pow (max (dot3 (reflect3 (neg3 light2) n) (neg3 rd)) 0) 32;
                 let baseColor = palette env (length3 p * 0.5 + dot3 n (Vec3 1 1 1) * 0.5);
                 let col = add3 (scale3 baseColor (0.2 + 0.4 * diff1 + 0.2 * diff2))
                                (scale3 (scale3 (Vec3 0.8 0.8 0.8) (spec1 + spec2)) 0.5);
                 let glow = exp (- length3 p * 1.5);
                 Some (add3 col (scale3 (scale3 baseColor glow) 0.3)) }
          else Some (Vec3 0 0 0) }"

text \<open>\<^verbatim>\<open>main\<close>, lines 121 to 154: line 153 writes \<^verbatim>\<open>vec4(col, 1.0)\<close>.\<close>

definition main :: "shader_inputs \<Rightarrow> frag_color" where
  "main env = FragColor (main_col env) 1"

section \<open>The specification's descriptions, as definitions of their own\<close>

text \<open>
  The definitions of this section follow the words of the specification, not the code;
  the theorems below compare them with the functions of the shader.
\<close>

text \<open>The standard rotation of the plane by the angle \<open>a\<close>, applied to \<open>(u, v)\<close>.\<close>

definition rot2 :: "real \<Rightarrow> real \<Rightarrow> real \<Rightarrow> real \<times> real" where
  "rot2 a u v = (u * cos a - v * sin a, u * sin a + v * cos a)"

text \<open>The quaternion map \<open>z \<mapsto> z\<^sup>2 + c\<close> and its orbit from \<open>z0\<close>.\<close>

definition julia_step :: "vec4 \<Rightarrow> vec4 \<Rightarrow> vec4" where
  "julia_step c z = add4 (qmul z z) c"

definition orbit :: "vec4 \<Rightarrow> vec4 \<Rightarrow> nat \<Rightarrow> vec4" where
  "orbit c z0 k = (julia_step c ^^ k) z0"

text \<open>The running derivative proxy along the orbit: \<open>dr\<close> after \<open>k\<close> updates.\<close>

primrec deriv :: "vec4 \<Rightarrow> vec4 \<Rightarrow> nat \<Rightarrow> real" where
  "deriv c z0 0 = 1"
| "deriv c z0 (Suc k) = 2 * length4 (orbit c z0 k) * deriv c z0 k + 1"

text \<open>
  Section 4.2 of the specification: lift, rotate the constant, iterate until the first
  escape among the first 20 orbit points, return the log-escape estimate. Without an
  escape the last radius measured is that of orbit point 19, and \<open>dr\<close> has been updated
  20 times.
\<close>

definition escape_state :: "vec4 \<Rightarrow> vec4 \<Rightarrow> real \<times> real" where
  "escape_state c z0 =
     (case find (\<lambda>k. length4 (orbit c z0 k) > 4) [0..<20] of
        Some n \<Rightarrow> (length4 (orbit c z0 n), deriv c z0 n)
      | None \<Rightarrow> (length4 (orbit c z0 19), deriv c z0 20))"

definition DE_spec :: "shader_inputs \<Rightarrow> vec3 \<Rightarrow> real option" where
  "DE_spec env pos =
     (let z0 = Vec4 (vx pos) (vy pos) (vz pos) 0;
          (cx, cy) = rot2 (time env * 0.2) (qx (quaternionC env)) (qy (quaternionC env));
          (cz, cw) = rot2 (time env * 0.2 * 0.7) (qz (quaternionC env)) (qw (quaternionC env));
          (r, dr) = escape_state (Vec4 cx cy cz cw) z0
      in if 0 < r then Some (0.5 * ln r * r / dr) else None)"

text \<open>
  Section 4.3 of the specification. The damped distance at travel distance \<open>t\<close>, and the
  march that never stops: the travel distance and the minimum damped distance observed
  after \<open>k\<close> steps.
\<close>

definition damped :: "shader_inputs \<Rightarrow> vec3 \<Rightarrow> vec3 \<Rightarrow> real \<Rightarrow> real option" where
  "damped env ro rd t = map_option (\<lambda>e. e * 0.45) (DE env (add3 ro (scale3 rd t)))"

primrec march :: "shader_inputs \<Rightarrow> vec3 \<Rightarrow> vec3 \<Rightarrow> nat \<Rightarrow> (real \<times> real) option" where
  "march env ro rd 0 = Some (0, 40)"
| "march env ro rd (Suc k) =
     do { (t, m) \<leftarrow> march env ro rd k;
          d \<leftarrow> damped env ro rd t;
          Some (t + d, min m d) }"

text \<open>
  Step \<open>k\<close> ends the march: its damped distance is a direct hit, or the travel distance
  has passed the maximum (or the distance estimate is undefined there).
\<close>

definition march_stops :: "shader_inputs \<Rightarrow> vec3 \<Rightarrow> vec3 \<Rightarrow> nat \<Rightarrow> bool" where
  "march_stops env ro rd k =
     (case march env ro rd k of
        None \<Rightarrow> True
      | Some (t, m) \<Rightarrow>
          (case damped env ro rd t of None \<Rightarrow> True | Some d \<Rightarrow> d < 0.0001 \<or> 40 < t))"

definition rayMarch_spec :: "shader_inputs \<Rightarrow> vec3 \<Rightarrow> vec3 \<Rightarrow> real option" where
  "rayMarch_spec env ro rd =
     (case find (march_stops env ro rd) [0..<512] of
        Some k \<Rightarrow>
          do { (t, m) \<leftarrow> march env ro rd k;
               d \<leftarrow> damped env ro rd t;
               Some (if d < 0.0001 then t else if min m d < 0.1 then t else 40) }
      | None \<Rightarrow>
          do { (t, m) \<leftarrow> march env ro rd 512;
               Some (if m < 0.1 then t else 40) })"

text \<open>
  Section 4.5 of the specification: the shading formula, with total normalisation
  (the two light vectors are never zero) and the shininess as a natural power.
\<close>

definition unit3 :: "vec3 \<Rightarrow> vec3" where
  "unit3 v = Vec3 (vx v / length3 v) (vy v / length3 v) (vz v / length3 v)"

definition shade_spec :: "real \<Rightarrow> vec3 \<Rightarrow> vec3 \<Rightarrow> vec3 \<Rightarrow> vec3 \<Rightarrow> vec3" where
  "shade_spec tm baseColor p n rd =
     (let light1 = unit3 (Vec3 (sin tm) 1 (cos tm));
          light2 = unit3 (Vec3 (- 0.707) 0.707 0);
          diff1 = max (dot3 n light1) 0;
          diff2 = max (dot3 n light2) 0;
          spec1 = (max (dot3 (reflect3 (neg3 light1) n) (neg3 rd)) 0) ^ 32;
          spec2 = (max (dot3 (reflect3 (neg3 light2) n) (neg3 rd)) 0) ^ 32;
          lit = 0.2 + 0.4 * diff1 + 0.2 * diff2;
          shine = 0.8 * (spec1 + spec2) * 0.5;
          glow = exp (- length3 p * 1.5) * 0.3
      in Vec3 (vx baseColor * lit + shine + vx baseColor * glow)
              (vy baseColor * lit + shine + vy baseColor * glow)
              (vz baseColor * lit + shine + vz baseColor * glow))"

text \<open>
  The colour of a fragment as the specification describes it: black when the marcher
  reports no hit, the shading formula at the hit point otherwise.
\<close>

definition main_spec :: "shader_inputs \<Rightarrow> vec3 option" where
  "main_spec env =
     do { rd0 \<leftarrow> normalize3 (sub3 (vWorldPosition env) (cameraPosition env));
          rd \<leftarrow> normalize3 (add3 rd0 (scale3 (vNormal env) 0.01));
          t \<leftarrow> rayMarch env (cameraPosition env) rd;
          if t < 40 then
            do { let p = add3 (cameraPosition env) (scale3 rd t);
                 n \<leftarrow> getNormal env p;
                 let baseColor = palette env (length3 p * 0.5 + dot3 n (Vec3 1 1 1) * 0.5);
                 Some (shade_spec (time env) baseColor p n rd) }
          else Some (Vec3 0 0 0) }"

section \<open>Concrete inputs\<close>

text \<open>
  Three settings of the uniforms at time 0, where the rotation of the constant is the
  identity. They differ in the constant \<open>quaternionC\<close>: \<open>(3/16, 0, 0, 0)\<close>, whose Julia
  set contains a segment of the first axis; \<open>(5, 0, 0, 0)\<close>, for which every point near
  the origin escapes in the second iteration; and \<open>(0, 0, 0, 0)\<close>.
\<close>

definition env_attracting :: shader_inputs where
  "env_attracting =
     \<lparr>resolution = Vec2 800 600, time = 0, quaternionC = Vec4 (3 / 16) 0 0 0,
      cameraPosition = Vec3 84 0 0, vPosition = Vec3 3 0 0,
      vWorldPosition = Vec3 3 0 0, vNormal = Vec3 1 0 0\<rparr>"

definition env_escaping :: shader_inputs where
  "env_escaping =
     \<lparr>resolution = Vec2 800 600, time = 0, quaternionC = Vec4 5 0 0 0,
      cameraPosition = Vec3 1 1 1, vPosition = Vec3 3 0 0,
      vWorldPosition = Vec3 3 0 0, vNormal = Vec3 1 0 0\<rparr>"


section \<open>Properties of quaternion multiplication\<close>

lemma qmul_hamilton: "qmul a b = hamilton a b"
  by (simp add: qmul_def hamilton_def vpart_def add3_def scale3_def cross3_def dot3_def
      Let_def algebra_simps)

text \<open>
  Claim C3. For all 4-tuples \<open>a\<close> and \<open>b\<close>, \<open>qmul a b\<close> is the Hamilton product, given
  componentwise by the four closed formulas of the specification; the function is a
  pure function of its two arguments.
\<close>

theorem qmul_componentwise:
  "qx (qmul a b) = qx a * qx b - qy a * qy b - qz a * qz b - qw a * qw b \<and>
   qy (qmul a b) = qx a * qy b + qy a * qx b + qz a * qw b - qw a * qz b \<and>
   qz (qmul a b) = qx a * qz b - qy a * qw b + qz a * qx b + qw a * qy b \<and>
   qw (qmul a b) = qx a * qw b + qy a * qz b - qz a * qy b + qw a * qx b \<and>
   qmul a b = hamilton a b"
  by (simp add: qmul_hamilton [symmetric] qmul_def)

text \<open>
  Claim C8. The quaternion \<open>(1,0,0,0)\<close> is a right identity of \<open>qmul\<close>;
  \<open>qmul (1,0,0,0) (0,1,0,0) = (0,1,0,0)\<close>; and \<open>qmul\<close> is not commutative: there are
  quaternions \<open>a\<close>, \<open>b\<close> with \<open>qmul a b \<noteq> qmul b a\<close>.
\<close>

theorem qmul_identity_sample_noncomm:
  "(\<forall>q. qmul q (Vec4 1 0 0 0) = q) \<and>
   qmul (Vec4 1 0 0 0) (Vec4 0 1 0 0) = Vec4 0 1 0 0 \<and>
   (\<exists>a b. qmul a b \<noteq> qmul b a)"
proof (intro conjI allI)
  fix q show "qmul q (Vec4 1 0 0 0) = q"
    by (cases q) (simp add: qmul_def)
next
  show "qmul (Vec4 1 0 0 0) (Vec4 0 1 0 0) = Vec4 0 1 0 0"
    by (simp add: qmul_def)
next
  have "qmul (Vec4 0 1 0 0) (Vec4 0 0 1 0) \<noteq> qmul (Vec4 0 0 1 0) (Vec4 0 1 0 0)"
    by (simp add: qmul_def)
  then show "\<exists>a b. qmul a b \<noteq> qmul b a" by blast
qed

section \<open>Properties of the distance estimator\<close>

lemma find_upt_Some:
  "i < n \<Longrightarrow> P i \<Longrightarrow> (\<And>j. j < i \<Longrightarrow> \<not> P j) \<Longrightarrow> find P [0..<n] = Some i"
  by (auto simp: find_Some_iff intro!: exI[of _ i])

lemma find_upt_None: "(\<And>j. j < n \<Longrightarrow> \<not> P j) \<Longrightarrow> find P [0..<n] = None"
  by (auto simp: find_None_iff)

lemma orbit_Suc: "orbit c z0 (Suc k) = add4 (qmul (orbit c z0 k) (orbit c z0 k)) c"
  by (simp add: orbit_def julia_step_def)

lemma orbit_0: "orbit c z0 0 = z0"
  by (simp add: orbit_def)

text \<open>
  The loop invariant: entering iteration \<open>i\<close> without an earlier escape, \<open>z\<close> is orbit
  point \<open>i\<close>, \<open>dr\<close> has been updated \<open>i\<close> times and \<open>r\<close> is the radius of the previous point.
\<close>

lemma DE_loop_orbit:
  assumes "i \<le> 20" "\<And>j. j < i \<Longrightarrow> \<not> length4 (orbit c z0 j) > 4"
    and "i > 0 \<Longrightarrow> r = length4 (orbit c z0 (i - 1))"
  shows "DE_loop i c (orbit c z0 i) (deriv c z0 i) r = escape_state c z0"
  using assms
proof (induction "20 - i" arbitrary: i r)
  case 0
  then have i: "i = 20" by simp
  have "find (\<lambda>k. length4 (orbit c z0 k) > 4) [0..<20] = None"
    using 0 i by (intro find_upt_None) auto
  then show ?case using 0 i
    by (subst DE_loop.simps) (simp add: ITERATIONS_def escape_state_def)
next
  case (Suc n)
  then have i: "i < 20" by simp
  show ?case
  proof (cases "length4 (orbit c z0 i) > 4")
    case True
    have "find (\<lambda>k. length4 (orbit c z0 k) > 4) [0..<20] = Some i"
      using i True Suc.prems(2) by (intro find_upt_Some) auto
    then show ?thesis using i True
      by (subst DE_loop.simps) (simp add: ITERATIONS_def escape_state_def)
  next
    case False
    have "DE_loop (Suc i) c (orbit c z0 (Suc i)) (deriv c z0 (Suc i)) (length4 (orbit c z0 i))
          = escape_state c z0"
    proof (rule Suc.hyps(1))
      show "n = 20 - Suc i" using Suc.hyps(2) by simp
      show "Suc i \<le> 20" using i by simp
      show "\<not> 4 < length4 (orbit c z0 j)" if "j < Suc i" for j
        using that False Suc.prems(2) by (cases "j = i") auto
      show "length4 (orbit c z0 i) = length4 (orbit c z0 (Suc i - 1))" by simp
    qed
    then show ?thesis using i False
      by (subst DE_loop.simps) (simp add: ITERATIONS_def orbit_Suc)
  qed
qed

lemma DE_loop_escape_state: "DE_loop 0 c z0 1 0 = escape_state c z0"
  using DE_loop_orbit[of 0 c z0 0] by (simp add: orbit_0)

lemma deriv_ge_1: "1 \<le> deriv c z0 k"
  by (induction k) (simp_all add: length4_def)

lemma escape_state_dr: "1 \<le> snd (escape_state c z0)"
  using deriv_ge_1[of c z0] by (auto simp: escape_state_def split: option.splits)

lemma escape_state_r: "0 \<le> fst (escape_state c z0)"
  by (auto simp: escape_state_def length4_def split: option.splits)

lemma DE_escape_state:
  "DE env pos =
     (case escape_state (rotatedC env) (Vec4 (vx pos) (vy pos) (vz pos) 0) of
        (r, dr) \<Rightarrow> if 0 < r then Some (0.5 * ln r * r / dr) else None)"
proof -
  define z0 where "z0 = Vec4 (vx pos) (vy pos) (vz pos) 0"
  obtain r dr where e: "escape_state (rotatedC env) z0 = (r, dr)"
    by (cases "escape_state (rotatedC env) z0")
  have "dr \<ge> 1" using e escape_state_dr[of "rotatedC env" z0] by simp
  then have "dr \<noteq> 0" by simp
  then show ?thesis using e
    by (simp add: DE_def z0_def[symmetric] DE_loop_escape_state glsl_log_def glsl_div_def)
qed

text \<open>
  Claim C2. \<open>DE\<close> lifts \<open>pos\<close> to the quaternion \<open>(pos.x, pos.y, pos.z, 0)\<close>, rotates
  \<open>(cx, cy)\<close> by the angle \<open>time * 0.2\<close> and \<open>(cz, cw)\<close> by \<open>time * 0.2 * 0.7\<close>, iterates
  \<open>z \<mapsto> qmul z z + c\<close> at most 20 times with \<open>r = |z|\<close>, the early exit on \<open>r > 4\<close> and the
  update \<open>dr := 2 r dr + 1\<close> from \<open>dr = 1\<close>, and returns \<open>0.5 * ln r * r / dr\<close> (which GLSL
  defines for \<open>r > 0\<close>): the loop of the code computes what the specification describes.
\<close>

theorem DE_refines_spec: "DE env pos = DE_spec env pos"
  unfolding DE_escape_state
  by (simp add: DE_spec_def rotatedC_def rot2_def Let_def)

section \<open>Properties of the ray marcher\<close>

text \<open>
  The loop invariant: entering step \<open>i\<close> with no earlier stop, \<open>t\<close> and \<open>minD\<close> are those
  of the unstopped march after \<open>i\<close> steps.
\<close>

lemma rayMarch_loop_march:
  assumes "i \<le> 512" "march env ro rd i = Some (t, m)"
    and "\<And>j. j < i \<Longrightarrow> \<not> march_stops env ro rd j"
  shows "after_loop (rayMarch_loop env ro rd i t m) = rayMarch_spec env ro rd"
  using assms
proof (induction "512 - i" arbitrary: i t m)
  case 0
  then have i: "i = 512" by simp
  have "find (march_stops env ro rd) [0..<512] = None"
    using 0 i by (intro find_upt_None) auto
  then show ?case using 0 i
    by (subst rayMarch_loop.simps)
       (simp add: MAX_STEPS_def rayMarch_spec_def after_loop_def MAX_DIST_def)
next
  case (Suc n)
  then have i: "i < 512" by simp
  show ?case
  proof (cases "march_stops env ro rd i")
    case True
    have f: "find (march_stops env ro rd) [0..<512] = Some i"
      using i True Suc.prems(3) by (intro find_upt_Some) auto
    show ?thesis
    proof (cases "DE env (add3 ro (scale3 rd t))")
      case None
      then show ?thesis using i f Suc.prems(2)
        by (subst rayMarch_loop.simps)
           (simp add: MAX_STEPS_def rayMarch_spec_def after_loop_def damped_def)
    next
      case (Some e)
      with True Suc.prems(2) have "e * 0.45 < 0.0001 \<or> 40 < t"
        by (simp add: march_stops_def damped_def)
      then show ?thesis using i f Suc.prems(2) Some
        by (subst rayMarch_loop.simps)
           (auto simp add: MAX_STEPS_def rayMarch_spec_def after_loop_def damped_def
              STEP_SCALE_def MIN_DIST_def MAX_DIST_def Let_def)
    qed
  next
    case False
    then obtain e where e: "DE env (add3 ro (scale3 rd t)) = Some e"
      and ns: "\<not> e * 0.45 < 0.0001" "\<not> 40 < t"
      using Suc.prems(2) by (auto simp: march_stops_def damped_def split: option.splits)
    have "after_loop (rayMarch_loop env ro rd (Suc i) (t + e * 0.45) (min m (e * 0.45)))
          = rayMarch_spec env ro rd"
    proof (rule Suc.hyps(1))
      show "n = 512 - Suc i" using Suc.hyps(2) by simp
      show "Suc i \<le> 512" using i by simp
      show "march env ro rd (Suc i) = Some (t + e * 0.45, min m (e * 0.45))"
        using Suc.prems(2) e by (simp add: damped_def)
      show "\<not> march_stops env ro rd j" if "j < Suc i" for j
        using that False Suc.prems(3) by (cases "j = i") auto
    qed
    then show ?thesis using i e ns
      by (subst rayMarch_loop.simps)
         (simp add: MAX_STEPS_def STEP_SCALE_def MIN_DIST_def MAX_DIST_def Let_def)
  qed
qed

text \<open>
  Claim C1. For every ray origin and direction, \<open>rayMarch\<close> is the damped sphere tracing
  of the specification: each step adds 0.45 times the distance estimate to \<open>t\<close>, over at
  most 512 steps; the first step whose damped distance is below \<open>1e-4\<close> returns the
  current \<open>t\<close>; when \<open>t\<close> has passed 40 or the budget is used up, the current \<open>t\<close> is
  returned if the minimum damped distance observed is below 0.1, and 40 otherwise.
\<close>

theorem rayMarch_refines_spec: "rayMarch env ro rd = rayMarch_spec env ro rd"
  unfolding rayMarch_def
  using rayMarch_loop_march[of 0 env ro rd 0 40] by (simp add: MAX_DIST_def)

section \<open>Evaluating the distance estimator\<close>

text \<open>
  Two families of points where the estimate is known in closed form or in sign: a point
  farther than 4 from the origin escapes in the first iteration, and for the constant
  \<open>(3/16, 0, 0, 0)\<close> the segment \<open>[-3/4, 3/4]\<close> of the first axis is mapped into
  \<open>[3/16, 3/4]\<close>, so a point of it never escapes and its estimate is negative.
\<close>

lemma length3_x: "length3 (Vec3 a 0 0) = \<bar>a\<bar>"
  by (simp add: length3_def)

lemma length4_x: "length4 (Vec4 a 0 0 0) = \<bar>a\<bar>"
  by (simp add: length4_def)

lemma DE_escaped:
  assumes "4 < length3 pos"
  shows "DE env pos = Some (0.5 * ln (length3 pos) * length3 pos)"
proof -
  have l: "length4 (Vec4 (vx pos) (vy pos) (vz pos) 0) = length3 pos"
    by (simp add: length4_def length3_def)
  have "DE_loop 0 (rotatedC env) (Vec4 (vx pos) (vy pos) (vz pos) 0) 1 0 = (length3 pos, 1)"
    using assms by (subst DE_loop.simps) (simp add: ITERATIONS_def l)
  then show ?thesis using assms
    by (simp add: DE_def glsl_log_def glsl_div_def)
qed

lemma orbit_real_axis:
  assumes "\<bar>x\<bar> \<le> 3 / 4"
  shows "\<exists>y. orbit (Vec4 (3 / 16) 0 0 0) (Vec4 x 0 0 0) (Suc k) = Vec4 y 0 0 0
             \<and> 3 / 16 \<le> y \<and> y \<le> 3 / 4"
proof (induction k)
  case 0
  have "x * x \<le> (3 / 4) * (3 / 4)"
    using assms by (metis abs_mult_self_eq mult_mono' abs_ge_zero)
  then show ?case
    by (simp add: orbit_def julia_step_def qmul_def add4_def)
next
  case (Suc k)
  then obtain y where y: "orbit (Vec4 (3 / 16) 0 0 0) (Vec4 x 0 0 0) (Suc k) = Vec4 y 0 0 0"
    "3 / 16 \<le> y" "y \<le> 3 / 4" by blast
  have "y * y \<le> (3 / 4) * (3 / 4)"
    using y(2,3) by (intro mult_mono) auto
  moreover have "0 \<le> y * y" by simp
  ultimately show ?case
    unfolding orbit_Suc[of _ _ "Suc k"] y(1)
    by (simp add: qmul_def add4_def)
qed

lemma DE_inside:
  assumes c: "rotatedC env = Vec4 (3 / 16) 0 0 0" and x: "\<bar>x\<bar> \<le> 3 / 4"
  shows "\<exists>e. DE env (Vec3 x 0 0) = Some e \<and> e < 0"
proof -
  define cc where "cc = Vec4 (3 / 16) 0 0 0"
  define z0 where "z0 = Vec4 x 0 0 0"
  have small: "length4 (orbit cc z0 k) \<le> 3 / 4" for k
  proof (cases k)
    case 0
    then show ?thesis using x by (simp add: orbit_0 z0_def length4_x)
  next
    case (Suc j)
    then show ?thesis using orbit_real_axis[OF x, of j]
      by (auto simp: cc_def z0_def length4_x)
  qed
  have "find (\<lambda>k. length4 (orbit cc z0 k) > 4) [0..<20] = None"
  proof (rule find_upt_None)
    fix j show "\<not> 4 < length4 (orbit cc z0 j)" using small[of j] by simp
  qed
  then have es: "escape_state cc z0 = (length4 (orbit cc z0 19), deriv cc z0 20)"
    by (simp add: escape_state_def)
  obtain y where y: "orbit cc z0 (Suc 18) = Vec4 y 0 0 0" "3 / 16 \<le> y" "y \<le> 3 / 4"
    using orbit_real_axis[OF x, of 18] unfolding cc_def z0_def by blast
  have r: "length4 (orbit cc z0 19) = y" using y by (simp add: length4_x)
  have dr: "1 \<le> deriv cc z0 20" by (rule deriv_ge_1)
  have "ln y < 0" using y(2,3) by (simp add: ln_less_zero_iff)
  then have "ln y * y < 0" using y(2) by (simp add: mult_neg_pos)
  then have "0.5 * ln y * y / deriv cc z0 20 < 0"
    using dr by (simp add: divide_neg_pos)
  moreover have "DE env (Vec3 x 0 0) = Some (0.5 * ln y * y / deriv cc z0 20)"
    using es r y(2) by (simp add: DE_escape_state c cc_def[symmetric] z0_def[symmetric])
  ultimately show ?thesis by blast
qed

subsection \<open>Bounds on the logarithm of 84\<close>

lemma exp_double_le:
  fixes u :: real
  assumes "exp u \<le> b" "b * b \<le> b'"
  shows "exp (2 * u) \<le> b'"
proof -
  have "0 \<le> b" using assms(1) exp_ge_zero[of u] by linarith
  then have "exp u * exp u \<le> b * b"
    using assms(1) by (intro mult_mono) auto
  then show ?thesis using assms(2) by (simp add: exp_double power2_eq_square)
qed

lemma exp_double_ge:
  fixes u :: real
  assumes "b \<le> exp u" "0 \<le> b" "b' \<le> b * b"
  shows "b' \<le> exp (2 * u)"
proof -
  have "b * b \<le> exp u * exp u"
    using assms(1,2) by (intro mult_mono) auto
  then show ?thesis using assms(3) by (simp add: exp_double power2_eq_square)
qed

lemma ln84_lower: "141 / 32 \<le> ln (84::real)"
proof -
  have "1 + (- (141 / 16384)) \<le> exp (- (141 / 16384 :: real))"
    by (rule exp_ge_add_one_self)
  then have "16243 / 16384 \<le> 1 / exp (141 / 16384 :: real)"
    by (simp add: exp_minus inverse_eq_divide)
  then have "exp (141 / 16384 :: real) \<le> 16384 / 16243"
    by (simp add: field_simps)
  then have e0: "exp (141 / 16384 :: real) \<le> 10086807 / 10000000" by simp
  have e1: "exp (141 / 8192 :: real) \<le> 10174368 / 10000000"
    using exp_double_le[OF e0, of "10174368 / 10000000"] by simp
  have e2: "exp (141 / 4096 :: real) \<le> 10351777 / 10000000"
    using exp_double_le[OF e1, of "10351777 / 10000000"] by simp
  have e3: "exp (141 / 2048 :: real) \<le> 10715929 / 10000000"
    using exp_double_le[OF e2, of "10715929 / 10000000"] by simp
  have e4: "exp (141 / 1024 :: real) \<le> 11483114 / 10000000"
    using exp_double_le[OF e3, of "11483114 / 10000000"] by simp
  have e5: "exp (141 / 512 :: real) \<le> 13186191 / 10000000"
    using exp_double_le[OF e4, of "13186191 / 10000000"] by simp
  have e6: "exp (141 / 256 :: real) \<le> 17387564 / 10000000"
    using exp_double_le[OF e5, of "17387564 / 10000000"] by simp
  have e7: "exp (141 / 128 :: real) \<le> 30232739 / 10000000"
    using exp_double_le[OF e6, of "30232739 / 10000000"] by simp
  have e8: "exp (141 / 64 :: real) \<le> 91401851 / 10000000"
    using exp_double_le[OF e7, of "91401851 / 10000000"] by simp
  have e9: "exp (141 / 32 :: real) \<le> 84"
    using exp_double_le[OF e8, of 84] by simp
  then have "exp (141 / 32) \<le> exp (ln (84::real))" by simp
  then show ?thesis by (simp only: exp_le_cancel_iff)
qed

lemma ln84_upper: "ln (84::real) \<le> 448 / 100"
proof -
  have "1 + 14 / 100 + (14 / 100)\<^sup>2 / 2 \<le> exp (14 / 100 :: real)"
    by (rule exp_lower_Taylor_quadratic) simp
  then have e0: "5749 / 5000 \<le> exp (14 / 100 :: real)" by (simp add: power2_eq_square)
  have e1: "13220400 / 10000000 \<le> exp (28 / 100 :: real)"
    using exp_double_ge[OF e0, of "13220400 / 10000000"] by simp
  have e2: "17477897 / 10000000 \<le> exp (56 / 100 :: real)"
    using exp_double_ge[OF e1, of "17477897 / 10000000"] by simp
  have e3: "30547688 / 10000000 \<le> exp (112 / 100 :: real)"
    using exp_double_ge[OF e2, of "30547688 / 10000000"] by simp
  have e4: "93316124 / 10000000 \<le> exp (224 / 100 :: real)"
    using exp_double_ge[OF e3, of "93316124 / 10000000"] by simp
  have e5: "84 \<le> exp (448 / 100 :: real)"
    using exp_double_ge[OF e4, of 84] by simp
  then have "exp (ln (84::real)) \<le> exp (448 / 100)" by simp
  then show ?thesis by (simp only: exp_le_cancel_iff)
qed

section \<open>The travel distance returned by the marcher\<close>

lemma rotatedC_env_attracting: "rotatedC env_attracting = Vec4 (3 / 16) 0 0 0"
  by (simp add: rotatedC_def env_attracting_def)

lemma overshoot_step_bounds:
  "83 + 1 / 4 \<le> 189 / 10 * ln (84::real) \<and> 189 / 10 * ln (84::real) \<le> 84 + 3 / 4"
  using ln84_lower ln84_upper by simp

lemma DE_overshoot_0: "DE env_attracting (Vec3 84 0 0) = Some (0.5 * ln 84 * 84)"
  using DE_escaped[of "Vec3 84 0 0" env_attracting] by (simp add: length3_x)

lemma DE_overshoot_1:
  "\<exists>e. DE env_attracting (Vec3 (84 - 189 / 10 * ln 84) 0 0) = Some e \<and> e < 0"
proof -
  have "\<bar>84 - 189 / 10 * ln (84::real)\<bar> \<le> 3 / 4"
    using overshoot_step_bounds by linarith
  then show ?thesis using DE_inside[OF rotatedC_env_attracting] by blast
qed

lemma march_overshoot_0:
  "\<not> march_stops env_attracting (Vec3 84 0 0) (Vec3 (- 1) 0 0) 0"
  using overshoot_step_bounds
  by (simp add: march_stops_def damped_def add3_def scale3_def DE_overshoot_0)

lemma march_overshoot_1:
  "march env_attracting (Vec3 84 0 0) (Vec3 (- 1) 0 0) 1
     = Some (189 / 10 * ln 84, min 40 (189 / 10 * ln 84))"
  by (simp add: damped_def add3_def scale3_def DE_overshoot_0)

lemma march_stops_overshoot_1:
  "march_stops env_attracting (Vec3 84 0 0) (Vec3 (- 1) 0 0) 1"
proof -
  obtain e where e: "DE env_attracting (Vec3 (84 - 189 / 10 * ln 84) 0 0) = Some e" "e < 0"
    using DE_overshoot_1 by blast
  then have "e * 0.45 < 0.0001" by (simp add: mult_neg_pos)
  then show ?thesis using e(1)
    unfolding march_stops_def march_overshoot_1
    by (simp add: damped_def add3_def scale3_def)
qed

lemma rayMarch_overshoot:
  "rayMarch env_attracting (Vec3 84 0 0) (Vec3 (- 1) 0 0) = Some (189 / 10 * ln 84)"
proof -
  define t1 :: real where "t1 = 189 / 10 * ln 84"
  have t1_bounds: "83 + 1 / 4 \<le> t1" "t1 \<le> 84 + 3 / 4"
    using overshoot_step_bounds by (simp_all add: t1_def)
  obtain e where e: "DE env_attracting (Vec3 (84 - t1) 0 0) = Some e" "e < 0"
    using DE_overshoot_1 unfolding t1_def by blast
  have step1: "rayMarch_loop env_attracting (Vec3 84 0 0) (Vec3 (- 1) 0 0) 1 t1 (min 40 t1)
               = Some (Returned t1)"
    using e by (subst rayMarch_loop.simps)
      (simp add: MAX_STEPS_def add3_def scale3_def STEP_SCALE_def MIN_DIST_def Let_def
         mult_neg_pos)
  have "rayMarch_loop env_attracting (Vec3 84 0 0) (Vec3 (- 1) 0 0) 0 0 40
        = Some (Returned t1)"
    using DE_overshoot_0 t1_bounds step1
    by (subst rayMarch_loop.simps)
      (simp add: MAX_STEPS_def add3_def scale3_def STEP_SCALE_def MIN_DIST_def MAX_DIST_def
         Let_def t1_def)
  then show ?thesis
    by (simp add: rayMarch_def after_loop_def MAX_DIST_def t1_def)
qed

lemma march_not_stopped:
  assumes "\<not> march_stops env ro rd j"
  shows "\<exists>t m d. march env ro rd j = Some (t, m) \<and> damped env ro rd t = Some d
           \<and> \<not> d < 0.0001 \<and> t \<le> 40"
  using assms by (auto simp: march_stops_def split: option.splits)

lemma march_nonneg:
  assumes "\<And>j. j < k \<Longrightarrow> \<not> march_stops env ro rd j" "march env ro rd k = Some (t, m)"
  shows "0 \<le> t"
  using assms
proof (induction k arbitrary: t m)
  case 0
  then show ?case by simp
next
  case (Suc k)
  obtain t' m' d where s: "march env ro rd k = Some (t', m')" "damped env ro rd t' = Some d"
    "\<not> d < 0.0001" using march_not_stopped[OF Suc.prems(1)[of k]] by auto
  have "0 \<le> t'" using Suc.IH[OF _ s(1)] Suc.prems(1) by simp
  moreover have "t = t' + d" using Suc.prems(2) s by simp
  ultimately show ?case using s(3) by simp
qed

lemma find_upt_SomeD:
  assumes "find P [0..<n] = Some k"
  shows "k < n \<and> P k \<and> (\<forall>j<k. \<not> P j)"
  using assms by (auto simp: find_Some_iff)

lemma find_upt_NoneD: "find P [0..<n] = None \<Longrightarrow> j < n \<Longrightarrow> \<not> P j"
  by (auto simp: find_None_iff)

text \<open>
  Claim C4, as stated, fails: the check of line 103 precedes the check of line 104, and
  line 109 returns \<open>t\<close> whatever its size. With the constant \<open>(3/16, 0, 0, 0)\<close> the ray
  from \<open>(84, 0, 0)\<close> towards the origin takes one step of length \<open>18.9 ln 84\<close>, about
  83.7, which lands inside the set at about \<open>0.26\<close>, where the estimate is negative: the
  marcher returns a travel distance greater than 40.
\<close>

theorem rayMarch_exceeds_MAX_DIST:
  "rayMarch env_attracting (Vec3 84 0 0) (Vec3 (- 1) 0 0) = Some (189 / 10 * ln 84)
   \<and> 40 < 189 / 10 * ln (84::real)"
  using rayMarch_overshoot overshoot_step_bounds by simp

text \<open>
  Claim C4, amended. The value returned by \<open>rayMarch\<close> is either exactly the sentinel 40
  or the travel distance \<open>t\<close> of the step \<open>k\<close> at which the march stopped: the first step
  that is a direct hit or has passed 40, or step 512 when the budget is used up. That
  distance is not negative and every travel distance before step \<open>k\<close> is at most 40, but
  the last step can carry \<open>t\<close> beyond 40, and \<open>t\<close> is returned all the same on a direct
  hit or a near hit: a value greater than 40 can be returned.
\<close>

theorem rayMarch_range:
  assumes "rayMarch env ro rd = Some v"
  shows "\<exists>k t m. march env ro rd k = Some (t, m) \<and> 0 \<le> t \<and>
           (\<forall>j<k. \<not> march_stops env ro rd j) \<and>
           (\<forall>j<k. \<exists>t' m'. march env ro rd j = Some (t', m') \<and> t' \<le> 40) \<and>
           (v = t \<or> v = 40) \<and>
           ((k < 512 \<and> march_stops env ro rd k \<and>
               (\<exists>d. damped env ro rd t = Some d \<and>
                    v = (if d < 0.0001 \<or> min m d < 0.1 then t else 40)))
            \<or> (k = 512 \<and> v = (if m < 0.1 then t else 40)))"
proof -
  have eq: "rayMarch env ro rd = rayMarch_spec env ro rd"
    unfolding rayMarch_def
    using rayMarch_loop_march[of 0 env ro rd 0 40] by (simp add: MAX_DIST_def)
  have before: "0 \<le> t \<and> (\<forall>j<k. \<not> march_stops env ro rd j) \<and>
           (\<forall>j<k. \<exists>t' m'. march env ro rd j = Some (t', m') \<and> t' \<le> 40)"
    if ns: "\<And>j. j < k \<Longrightarrow> \<not> march_stops env ro rd j"
      and mk: "march env ro rd k = Some (t, m)" for k t m
  proof -
    have "0 \<le> t" using march_nonneg[OF ns mk] by simp
    moreover have "\<forall>j<k. \<exists>t' m'. march env ro rd j = Some (t', m') \<and> t' \<le> 40"
      using march_not_stopped[OF ns] by blast
    ultimately show ?thesis using ns by blast
  qed
  show ?thesis
  proof (cases "find (march_stops env ro rd) [0..<512]")
    case None
    then have ns: "\<And>j. j < 512 \<Longrightarrow> \<not> march_stops env ro rd j"
      by (rule find_upt_NoneD)
    obtain t m where mk: "march env ro rd 512 = Some (t, m)"
      and v: "v = (if m < 0.1 then t else 40)"
      using assms None unfolding eq rayMarch_spec_def
      by (auto split: option.splits simp: bind_eq_Some_conv)
    have "v = t \<or> v = 40" using v by simp
    then show ?thesis using before[OF ns mk] mk v by blast
  next
    case (Some k)
    then have k: "k < 512" "march_stops env ro rd k"
      and ns: "\<And>j. j < k \<Longrightarrow> \<not> march_stops env ro rd j"
      using find_upt_SomeD[OF Some] by auto
    obtain t m d where mk: "march env ro rd k = Some (t, m)"
      and d: "damped env ro rd t = Some d"
      and v: "v = (if d < 0.0001 then t else if min m d < 0.1 then t else 40)"
      using assms Some unfolding eq rayMarch_spec_def
      by (auto split: option.splits simp: bind_eq_Some_conv)
    have v': "v = (if d < 0.0001 \<or> min m d < 0.1 then t else 40)" using v by simp
    have "v = t \<or> v = 40" using v by simp
    then show ?thesis using before[OF ns mk] mk k d v' by blast
  qed
qed

text \<open>
  A witness for C4: the ray of the counterexample. The march does not stop at step 0 and
  stops at step 1, with the travel distance \<open>18.9 ln 84\<close>, which is returned.
\<close>

theorem rayMarch_range_witness:
  "rayMarch env_attracting (Vec3 84 0 0) (Vec3 (- 1) 0 0) = Some (189 / 10 * ln 84) \<and>
   \<not> march_stops env_attracting (Vec3 84 0 0) (Vec3 (- 1) 0 0) 0 \<and>
   march_stops env_attracting (Vec3 84 0 0) (Vec3 (- 1) 0 0) 1 \<and>
   (\<exists>k t m. march env_attracting (Vec3 84 0 0) (Vec3 (- 1) 0 0) k = Some (t, m) \<and> 0 \<le> t \<and>
           (\<forall>j<k. \<not> march_stops env_attracting (Vec3 84 0 0) (Vec3 (- 1) 0 0) j) \<and>
           (\<forall>j<k. \<exists>t' m'. march env_attracting (Vec3 84 0 0) (Vec3 (- 1) 0 0) j = Some (t', m')
                        \<and> t' \<le> 40) \<and>
           (189 / 10 * ln 84 = t \<or> 189 / 10 * ln (84::real) = 40) \<and>
           ((k < 512 \<and> march_stops env_attracting (Vec3 84 0 0) (Vec3 (- 1) 0 0) k \<and>
               (\<exists>d. damped env_attracting (Vec3 84 0 0) (Vec3 (- 1) 0 0) t = Some d \<and>
                    189 / 10 * ln 84 = (if d < 0.0001 \<or> min m d < 0.1 then t else 40)))
            \<or> (k = 512 \<and> 189 / 10 * ln 84 = (if m < 0.1 then t else 40))))"
  by (intro conjI) (rule rayMarch_overshoot, rule march_overshoot_0,
      rule march_stops_overshoot_1, rule rayMarch_range [OF rayMarch_overshoot])

section \<open>Where the distance estimator is defined\<close>










section \<open>The normal estimator at a zero gradient\<close>

lemma DE_two_steps:
  assumes "z0 = Vec4 (vx pos) (vy pos) (vz pos) 0"
    and "\<not> 4 < length4 z0" "4 < length4 (add4 (qmul z0 z0) (rotatedC env))"
  shows "DE env pos = Some (0.5 * ln (length4 (add4 (qmul z0 z0) (rotatedC env)))
                          * length4 (add4 (qmul z0 z0) (rotatedC env)) / (2 * length4 z0 + 1))"
proof -
  have "DE_loop 1 (rotatedC env) (add4 (qmul z0 z0) (rotatedC env)) (2 * length4 z0 * 1 + 1) (length4 z0)
        = (length4 (add4 (qmul z0 z0) (rotatedC env)), 2 * length4 z0 + 1)"
    using assms(3) by (subst DE_loop.simps) (simp add: ITERATIONS_def)
  then have "DE_loop 0 (rotatedC env) z0 1 0
        = (length4 (add4 (qmul z0 z0) (rotatedC env)), 2 * length4 z0 + 1)"
    using assms(2) by (subst DE_loop.simps) (simp add: ITERATIONS_def)
  moreover have "0 \<le> length4 z0" by (simp add: length4_def)
  ultimately show ?thesis using assms(1,3)
    by (simp add: DE_def glsl_log_def glsl_div_def)
qed

lemma rotatedC_env_escaping: "rotatedC env_escaping = Vec4 5 0 0 0"
  by (simp add: rotatedC_def env_escaping_def)

lemma sq_of_abs: "\<bar>a\<bar> = (b::real) \<Longrightarrow> a * a = b * b"
  by (metis abs_mult_self_eq)

lemma DE_env_escaping_x:
  assumes "\<bar>a\<bar> = 1 / 10000"
  shows "DE env_escaping (Vec3 a 0 0)
         = Some (0.5 * ln (5 + 1 / 10 ^ 8) * (5 + 1 / 10 ^ 8) / (2 / 10000 + 1))"
proof -
  have l0: "length4 (Vec4 a 0 0 0) = 1 / 10000" using assms by (simp add: length4_x)
  have z1: "add4 (qmul (Vec4 a 0 0 0) (Vec4 a 0 0 0)) (rotatedC env_escaping) = Vec4 (5 + 1 / 10 ^ 8) 0 0 0"
    using sq_of_abs[OF assms] by (simp add: qmul_def add4_def rotatedC_env_escaping)
  show ?thesis
    using DE_two_steps[of "Vec4 a 0 0 0" "Vec3 a 0 0" env_escaping]
    unfolding z1 l0 by (simp add: length4_x)
qed

lemma DE_env_escaping_y:
  assumes "\<bar>a\<bar> = 1 / 10000"
  shows "DE env_escaping (Vec3 0 a 0)
         = Some (0.5 * ln (5 - 1 / 10 ^ 8) * (5 - 1 / 10 ^ 8) / (2 / 10000 + 1))"
proof -
  have l0: "length4 (Vec4 0 a 0 0) = 1 / 10000" using assms by (simp add: length4_def)
  have z1: "add4 (qmul (Vec4 0 a 0 0) (Vec4 0 a 0 0)) (rotatedC env_escaping) = Vec4 (5 - 1 / 10 ^ 8) 0 0 0"
    using sq_of_abs[OF assms] by (simp add: qmul_def add4_def rotatedC_env_escaping)
  show ?thesis
    using DE_two_steps[of "Vec4 0 a 0 0" "Vec3 0 a 0" env_escaping]
    unfolding z1 l0 by (simp add: length4_x)
qed

lemma DE_env_escaping_z:
  assumes "\<bar>a\<bar> = 1 / 10000"
  shows "DE env_escaping (Vec3 0 0 a)
         = Some (0.5 * ln (5 - 1 / 10 ^ 8) * (5 - 1 / 10 ^ 8) / (2 / 10000 + 1))"
proof -
  have l0: "length4 (Vec4 0 0 a 0) = 1 / 10000" using assms by (simp add: length4_def)
  have z1: "add4 (qmul (Vec4 0 0 a 0) (Vec4 0 0 a 0)) (rotatedC env_escaping) = Vec4 (5 - 1 / 10 ^ 8) 0 0 0"
    using sq_of_abs[OF assms] by (simp add: qmul_def add4_def rotatedC_env_escaping)
  show ?thesis
    using DE_two_steps[of "Vec4 0 0 a 0" "Vec3 0 0 a" env_escaping]
    unfolding z1 l0 by (simp add: length4_x)
qed

lemma gradDE_env_escaping: "gradDE env_escaping (Vec3 0 0 0) = Some (Vec3 0 0 0)"
  by (simp add: gradDE_def DE_diff_def add3_def sub3_def MIN_DIST_def
      DE_env_escaping_x DE_env_escaping_y DE_env_escaping_z)

lemma length3_zero_iff: "length3 v = 0 \<longleftrightarrow> v = Vec3 0 0 0"
proof (cases v)
  case (Vec3 a b c)
  have "a * a + b * b + c * c = 0 \<longleftrightarrow> a = 0 \<and> b = 0 \<and> c = 0"
    by (smt (verit) mult_eq_0_iff zero_le_square)
  moreover have "0 \<le> a * a + b * b + c * c" by simp
  ultimately show ?thesis using Vec3 by (simp add: length3_def)
qed

text \<open>
  Claim C6, as stated, fails: \<open>getNormal\<close> has no guard. With the constant
  \<open>(5, 0, 0, 0)\<close> the six estimates around the origin are defined and equal in pairs, the
  gradient is the zero vector, and line 86 normalises it: no normal is returned, and in
  particular not \<open>(0, 1, 0)\<close>.
\<close>

theorem getNormal_no_fallback:
  "gradDE env_escaping (Vec3 0 0 0) = Some (Vec3 0 0 0)
   \<and> getNormal env_escaping (Vec3 0 0 0) = None"
  by (simp add: getNormal_def gradDE_env_escaping normalize3_def length3_def)

text \<open>
  Claim C6, amended. At every point where the central-difference gradient of \<open>DE\<close> is the
  zero vector, \<open>getNormal\<close> has no fallback: it normalises the zero vector, which is
  undefined. A normal is returned exactly when the gradient is defined and not zero.
\<close>

theorem getNormal_zero_gradient:
  "(gradDE env p = Some (Vec3 0 0 0) \<longrightarrow> getNormal env p = None)
   \<and> (getNormal env p \<noteq> None) = (\<exists>g. gradDE env p = Some g \<and> g \<noteq> Vec3 0 0 0)"
  by (cases "gradDE env p") (auto simp: getNormal_def normalize3_def length3_zero_iff)

text \<open>A witness for C6: the origin, with the constant \<open>(5, 0, 0, 0)\<close>.\<close>

theorem getNormal_zero_gradient_witness:
  "gradDE env_escaping (Vec3 0 0 0) = Some (Vec3 0 0 0) \<and> getNormal env_escaping (Vec3 0 0 0) = None
   \<and> \<not> (\<exists>g. gradDE env_escaping (Vec3 0 0 0) = Some g \<and> g \<noteq> Vec3 0 0 0)"
  using getNormal_zero_gradient[of env_escaping "Vec3 0 0 0"] gradDE_env_escaping by simp

section \<open>The colour of a fragment\<close>

lemma normalize3_unit3: "v \<noteq> Vec3 0 0 0 \<Longrightarrow> normalize3 v = Some (unit3 v)"
  by (simp add: normalize3_def unit3_def length3_zero_iff)

lemma glsl_pow_32: "0 \<le> a \<Longrightarrow> glsl_pow a 32 = Some (a ^ 32)"
proof (cases "a = 0")
  case True
  then show ?thesis by (simp add: glsl_pow_def)
next
  case False
  assume "0 \<le> a"
  with False have "0 < a" by simp
  then have "a powr 32 = a ^ 32"
    using powr_realpow[of a 32] by simp
  then show ?thesis using \<open>0 < a\<close> by (simp add: glsl_pow_def)
qed

lemma shade_eq:
  fixes n rd p :: vec3 and env :: shader_inputs
  shows "do { light1 \<leftarrow> normalize3 (Vec3 (sin (time env)) 1 (cos (time env)));
                 light2 \<leftarrow> normalize3 (Vec3 (- 0.707) 0.707 0);
                 let diff1 = max (dot3 n light1) 0;
                 let diff2 = max (dot3 n light2) 0;
                 spec1 \<leftarrow> glsl_pow (max (dot3 (reflect3 (neg3 light1) n) (neg3 rd)) 0) 32;
                 spec2 \<leftarrow> glsl_pow (max (dot3 (reflect3 (neg3 light2) n) (neg3 rd)) 0) 32;
                 let baseColor = palette env (length3 p * 0.5 + dot3 n (Vec3 1 1 1) * 0.5);
                 let col = add3 (scale3 baseColor (0.2 + 0.4 * diff1 + 0.2 * diff2))
                                (scale3 (scale3 (Vec3 0.8 0.8 0.8) (spec1 + spec2)) 0.5);
                 let glow = exp (- length3 p * 1.5);
                 Some (add3 col (scale3 (scale3 baseColor glow) 0.3)) }
         = Some (shade_spec (time env) (palette env (length3 p * 0.5 + dot3 n (Vec3 1 1 1) * 0.5)) p n rd)"
proof -
  have l1: "normalize3 (Vec3 (sin (time env)) 1 (cos (time env))) = Some (unit3 (Vec3 (sin (time env)) 1 (cos (time env))))"
    by (rule normalize3_unit3) simp
  have l2: "normalize3 (Vec3 (- 0.707) 0.707 0) = Some (unit3 (Vec3 (- 0.707) 0.707 0))"
    by (rule normalize3_unit3) simp
  show ?thesis
    unfolding l1 l2
    by (simp add: glsl_pow_32 shade_spec_def Let_def add3_def scale3_def algebra_simps)
qed

text \<open>
  Claim C7. The alpha component of the output is 1 for every fragment. The colour is
  black when the marcher's result is not below 40, and otherwise it is
  \<open>baseColor * (0.2 + 0.4 diff1 + 0.2 diff2) + 0.8 (spec1 + spec2) 0.5
  + baseColor * exp (- |p| 1.5) * 0.3\<close> with the two clamped Lambertian terms and the two
  specular terms of exponent 32, for the lights \<open>normalize (sin time, 1, cos time)\<close> and
  \<open>normalize (-0.707, 0.707, 0)\<close>: neither the lights nor the powers are ever
  undefined, so the colour is defined whenever the ray direction, the marcher's result
  and the normal are.
\<close>

theorem main_color:
  "alpha (main env) = 1 \<and> rgb (main env) = main_spec env"
  unfolding main_def main_col_def main_spec_def shade_eq
  by (simp add: MAX_DIST_def Let_def cong: if_cong)

section \<open>Determinism\<close>

lemma DE_cong:
  assumes "time e1 = time e2" "quaternionC e1 = quaternionC e2"
  shows "DE e1 = DE e2"
  using assms by (intro ext) (simp add: DE_def rotatedC_def)

lemma rayMarch_loop_cong:
  assumes "DE e1 = DE e2"
  shows "rayMarch_loop e1 ro rd i t m = rayMarch_loop e2 ro rd i t m"
proof (induction "512 - i" arbitrary: i t m)
  case 0
  then show ?case
    by (subst (1 2) rayMarch_loop.simps) (simp add: MAX_STEPS_def)
next
  case (Suc k)
  then have "512 - Suc i = k" by simp
  then have IH: "rayMarch_loop e1 ro rd (Suc i) t' m' = rayMarch_loop e2 ro rd (Suc i) t' m'" for t' m'
    using Suc.hyps(1)[of "Suc i"] by simp
  show ?case
    by (subst (1 2) rayMarch_loop.simps) (simp add: assms IH Let_def split: option.splits)
qed

text \<open>
  Claim C9. Two evaluations of the fragment program with the same time, resolution,
  constant \<open>quaternionC\<close>, camera position, and interpolated world position and normal
  write the same colour. (The output does not depend on the varying \<open>vPosition\<close>.)
\<close>

theorem main_deterministic:
  assumes "time e1 = time e2" "resolution e1 = resolution e2"
    "quaternionC e1 = quaternionC e2" "cameraPosition e1 = cameraPosition e2"
    "vWorldPosition e1 = vWorldPosition e2" "vNormal e1 = vNormal e2"
  shows "main e1 = main e2"
proof -
  have de: "DE e1 = DE e2" using assms by (intro DE_cong)
  have rm: "rayMarch e1 = rayMarch e2"
    by (intro ext) (simp add: rayMarch_def rayMarch_loop_cong[OF de])
  have gn: "getNormal e1 = getNormal e2"
    by (intro ext) (simp add: getNormal_def gradDE_def DE_diff_def de)
  have pl: "palette e1 = palette e2"
    using assms(1) by (intro ext) (simp add: palette_def)
  show ?thesis
    unfolding main_def main_col_def rm gn pl assms ..
qed

text \<open>A witness for C9: two invocations that differ in \<open>vPosition\<close> only.\<close>

theorem main_deterministic_witness:
  "main env_escaping = main (env_escaping\<lparr>vPosition := Vec3 0 3 0\<rparr>)"
  using main_deterministic [of env_escaping "env_escaping\<lparr>vPosition := Vec3 0 3 0\<rparr>"]
  by simp

section \<open>The palette\<close>

text \<open>
  Claim C10. For every argument \<open>t\<close> and every time, each of the three components of
  \<open>palette t\<close> lies in the closed interval from 0 to 1; the base colour of the shading
  is a value of \<open>palette\<close>, so it is bounded componentwise by 0 and 1.
\<close>

theorem palette_bounds:
  "0 \<le> vx (palette env t) \<and> vx (palette env t) \<le> 1 \<and>
   0 \<le> vy (palette env t) \<and> vy (palette env t) \<le> 1 \<and>
   0 \<le> vz (palette env t) \<and> vz (palette env t) \<le> 1"
proof -
  have b: "0 \<le> 0.5 + 0.5 * cos a \<and> 0.5 + 0.5 * cos a \<le> 1" for a :: real
    using cos_ge_minus_one[of a] cos_le_one[of a] by linarith
  show ?thesis using b by (simp add: palette_def)
qed

end
